theory Spec2Isabelle
  imports Main "HOL-Library.Word"
begin

section \<open>The simple hybrid controller for THE ANALOG THING\<close>

text \<open>
  A shallow embedding of \<^verbatim>\<open>simple_hybrid_controller.ino\<close>: the global variables, the
  two hardware timers, the digital output pins and the serial output are one record that
  every function takes and returns. The sketch runs on an Arduino Mega (ATmega2560), where
  \<^verbatim>\<open>int\<close> and \<^verbatim>\<open>unsigned int\<close> have 16 bits and \<^verbatim>\<open>long\<close> has 32.

  The embedding is sequential: \<^verbatim>\<open>loop\<close> and the interrupt handler \<^verbatim>\<open>state_machine\<close> each
  run to their end, and a property that holds from every state holds whatever ran before.
  \<^verbatim>\<open>tokenize\<close> and \<^verbatim>\<open>sample_adc\<close> are not embedded: \<^verbatim>\<open>loop\<close> takes the line already
  split, and the handler of the sample timer only reads the analog inputs and prints.
\<close>

subsection \<open>Machine integers and constants\<close>

type_synonym uint = "16 word"
  \<comment> \<open>\<^verbatim>\<open>unsigned int\<close>; \<open><\<close> on words is the unsigned comparison\<close>

type_synonym cint = "16 word"
  \<comment> \<open>\<^verbatim>\<open>int\<close>, as its bit pattern; \<open>sint\<close> reads the signed value\<close>

type_synonym ulong = "32 word"

definition TRUE :: uint where "TRUE = 1"
definition FALSE :: uint where "FALSE = 0"
  \<comment> \<open>\<^verbatim>\<open>#define FALSE !TRUE\<close>\<close>

definition ENABLE :: nat where "ENABLE = 2"
definition MIC :: nat where "MIC = 3"
definition MOP :: nat where "MOP = 4"

definition IC :: cint where "IC = 0"
definition OP :: cint where "OP = 1"
definition HALT :: cint where "HALT = 2"

definition DEFAULT_OP_TIME :: uint where "DEFAULT_OP_TIME = 1000"
definition DEFAULT_IC_TIME :: uint where "DEFAULT_IC_TIME = 10"
definition DEFAULT_CHANNELS :: uint where "DEFAULT_CHANNELS = 1"
definition MAX_CHANNELS :: uint where "MAX_CHANNELS = 4"
definition MIN_INTERVAL :: uint where "MIN_INTERVAL = 1"

definition STATE_IDLE :: uint where "STATE_IDLE = 0"
definition STATE_SR_START :: uint where "STATE_SR_START = 1"
definition STATE_SR_IC :: uint where "STATE_SR_IC = 2"
definition STATE_SR_OP :: uint where "STATE_SR_OP = 3"

subsection \<open>Hardware and program state\<close>

datatype level = LOW | HIGH

datatype timer = Stopped | Running ulong
  \<comment> \<open>a running timer fires its interrupt every so many microseconds\<close>

datatype effect =
    DigitalWrite nat level
  | Timer3_stop
  | Timer3_initialize ulong
  | Timer5_stop
  | Timer5_initialize ulong
  | Serial_print string

record controller =
  op_time :: uint
  ic_time :: uint
  state :: uint
  repop :: uint
  channels :: uint
  interval :: uint
  armed :: uint
  pins :: "nat \<Rightarrow> level"
  Timer3 :: timer
  Timer5 :: timer
  trace :: "effect list"

text \<open>
  Modelled from the spec: the Arduino core and the TimerThree and TimerFive libraries are
  not part of the sketch. A digital output pin is settable to two levels, a timer is
  either stopped or running with a period (\<open>stop\<close> stops it, \<open>initialize\<close> starts it with
  the given period), and \<^verbatim>\<open>Serial.print\<close> emits text. Each call also appends itself
  to \<open>trace\<close>, the sequence of hardware calls made so far.
\<close>

definition digitalWrite :: "nat \<Rightarrow> level \<Rightarrow> controller \<Rightarrow> controller" where
  "digitalWrite p v s = s\<lparr>pins := (pins s)(p := v), trace := trace s @ [DigitalWrite p v]\<rparr>"

definition Timer3_stop_call :: "controller \<Rightarrow> controller" where
  "Timer3_stop_call s = s\<lparr>Timer3 := Stopped, trace := trace s @ [Timer3_stop]\<rparr>"

definition Timer3_initialize_call :: "ulong \<Rightarrow> controller \<Rightarrow> controller" where
  "Timer3_initialize_call us s =
     s\<lparr>Timer3 := Running us, trace := trace s @ [Timer3_initialize us]\<rparr>"

definition Timer5_stop_call :: "controller \<Rightarrow> controller" where
  "Timer5_stop_call s = s\<lparr>Timer5 := Stopped, trace := trace s @ [Timer5_stop]\<rparr>"

definition Timer5_initialize_call :: "ulong \<Rightarrow> controller \<Rightarrow> controller" where
  "Timer5_initialize_call us s =
     s\<lparr>Timer5 := Running us, trace := trace s @ [Timer5_initialize us]\<rparr>"

definition Serial_print_call :: "string \<Rightarrow> controller \<Rightarrow> controller" where
  "Serial_print_call txt s = s\<lparr>trace := trace s @ [Serial_print txt]\<rparr>"

text \<open>\<^verbatim>\<open>String(n)\<close> for an unsigned integer: its decimal digits.\<close>

fun String_of_nat :: "nat \<Rightarrow> string" where
  "String_of_nat n =
     (if n < 10 then [''0123456789'' ! n]
      else String_of_nat (n div 10) @ [''0123456789'' ! (n mod 10)])"

declare String_of_nat.simps [simp del]

definition String_of_uint :: "uint \<Rightarrow> string" where
  "String_of_uint w = String_of_nat (unat w)"

text \<open>\<^verbatim>\<open>1000 * (long) t\<close>: the milliseconds of a 16-bit field as microseconds, in 32 bits.\<close>

definition micros :: "uint \<Rightarrow> ulong" where
  "micros t = 1000 * ucast t"

subsection \<open>The mode driver\<close>

definition set_mode :: "cint \<Rightarrow> controller \<Rightarrow> controller" where
  "set_mode mode s =
     (if mode = IC then
        (let s = digitalWrite MIC LOW s in digitalWrite MOP HIGH s)
      else if mode = OP then
        (let s = digitalWrite MIC HIGH s in digitalWrite MOP LOW s)
      else if mode = HALT then
        (let s = digitalWrite MIC HIGH s in digitalWrite MOP HIGH s)
      else s)"

subsection \<open>The run sequencer\<close>

text \<open>
  The \<^verbatim>\<open>do ... while (redo)\<close> loop of \<^verbatim>\<open>state_machine\<close>: \<^verbatim>\<open>redo\<close> is set in one
  branch only, and there the body runs again.
\<close>

function do_while_redo :: "controller \<Rightarrow> controller" where
  "do_while_redo s =
     (if state s = STATE_SR_START then
        (let s = s\<lparr>state := STATE_SR_IC\<rparr>;
             s = set_mode IC s
         in Timer3_initialize_call (micros (ic_time s)) s)
      else if state s = STATE_SR_IC then
        (let s = Timer3_stop_call s;
             s = s\<lparr>state := STATE_SR_OP\<rparr>;
             s = set_mode OP s;
             s = (if repop s = 0 \<and> armed s \<noteq> 0
                  then Timer5_initialize_call (micros (interval s)) s else s)
         in Timer3_initialize_call (micros (op_time s)) s)
      else if state s = STATE_SR_OP then
        (if repop s = 0 then
           (let s = Timer3_stop_call s;
                s = Timer5_stop_call s;
                s = s\<lparr>armed := FALSE\<rparr>;
                s = set_mode HALT s;
                s = s\<lparr>state := STATE_IDLE\<rparr>
            in Serial_print_call ''Single run ended.\<newline>'' s)
         else do_while_redo (s\<lparr>state := STATE_SR_START\<rparr>))
      else s)"
  by pat_completeness auto

termination
  by (relation "measure (\<lambda>s. if state s = STATE_SR_OP then 1 else 0)")
     (auto simp: STATE_SR_START_def STATE_SR_OP_def)

declare do_while_redo.simps [simp del]

definition state_machine :: "controller \<Rightarrow> controller" where
  "state_machine s =
     (let s = (if state s = STATE_IDLE
               then (let s = Timer3_stop_call s in s\<lparr>repop := FALSE\<rparr>) else s)
      in do_while_redo s)"

subsection \<open>The command interpreter\<close>

text \<open>\<^verbatim>\<open>String(VERSION)\<close>: the Arduino \<^verbatim>\<open>String\<close> of a floating-point number has two decimals.\<close>

definition VERSION :: string where
  "VERSION = ''0.10''"

definition help_text :: string where
  "help_text =
     ''\<newline>Commands:\<newline>'' @
     ''        arm                 Arm the data logger\<newline>'' @
     ''        channels=<value>    Set the number of channels to be logged\<newline>'' @
     ''        disable             Disable the hybrid controller\<newline>'' @
     ''        enable              Enable the hybrid controller\<newline>'' @
     ''        halt                Switch THAT into HALT mode\<newline>'' @
     ''        help                Print this help text\<newline>'' @
     ''        ic                  Switch THAT to IC mode\<newline>'' @
     ''        ictime=<value>      Set IC-time to value milliseconds\<newline>'' @
     ''        interval=<value>    Set the sampling interval to value ms\<newline>'' @
     ''        op                  Switch THAT to OP mode\<newline>'' @
     ''        optime=<value>      Set the OP-time to value milliseconds\<newline>'' @
     ''        rep                 Start repetitive operation\<newline>'' @
     ''        run                 Start a single run (with logging if armed)\<newline>'' @
     ''        status              Return status information\<newline>'' @
     ''        \<newline>''"

text \<open>
  One pass of \<^verbatim>\<open>loop\<close>. Its input is \<open>None\<close> when no line is waiting on the serial
  port, and otherwise the line as the tokenizer and \<^verbatim>\<open>atoi\<close> hand it to the dispatch:
  the command token and the \<^verbatim>\<open>int\<close> that \<^verbatim>\<open>atoi\<close> returns for the value token (read
  only by the commands that take a value). \<^verbatim>\<open>unsigned int i = atoi(value)\<close> keeps the
  bit pattern, so a negative \<^verbatim>\<open>int\<close> becomes a large unsigned number.
\<close>

definition loop :: "(string \<times> cint) option \<Rightarrow> controller \<Rightarrow> controller" where
  "loop input s =
     (case input of
        None \<Rightarrow> s
      | Some (command, atoi_value) \<Rightarrow>
          if command = ''arm'' then
            (let s = s\<lparr>armed := TRUE\<rparr>
             in Serial_print_call ''Armed...\<newline>'' s)
          else if command = ''channels'' then
            (let i = atoi_value in
             if i < 1 \<or> i > MAX_CHANNELS then
               Serial_print_call ''Illegal number of channels!\<newline>'' s
             else
               (let s = s\<lparr>channels := i\<rparr>
                in Serial_print_call
                     (''channels='' @ String_of_uint (channels s) @ ''\<newline>'') s))
          else if command = ''disable'' then
            (let s = digitalWrite ENABLE HIGH s
             in Serial_print_call ''Hybrid mode disabled.\<newline>'' s)
          else if command = ''enable'' then
            (let s = set_mode IC s;
                 s = digitalWrite ENABLE LOW s
             in Serial_print_call ''Hybrid mode enabled.\<newline>'' s)
          else if command = ''halt'' then
            (let s = set_mode HALT s;
                 s = s\<lparr>state := STATE_IDLE\<rparr>;
                 s = s\<lparr>armed := FALSE\<rparr>;
                 s = Timer3_stop_call s;
                 s = Timer5_stop_call s
             in Serial_print_call ''HALT\<newline>'' s)
          else if command = ''help'' then
            Serial_print_call help_text s
          else if command = ''ic'' then
            (let s = set_mode IC s;
                 s = s\<lparr>state := STATE_IDLE\<rparr>;
                 s = s\<lparr>armed := FALSE\<rparr>;
                 s = Timer3_stop_call s;
                 s = Timer5_stop_call s
             in Serial_print_call ''IC\<newline>'' s)
          else if command = ''ictime'' then
            (let s = s\<lparr>ic_time := atoi_value\<rparr>
             in Serial_print_call (''ictime='' @ String_of_uint (ic_time s) @ ''\<newline>'') s)
          else if command = ''interval'' then
            (let i = atoi_value in
             if i < MIN_INTERVAL then
               Serial_print_call
                 (''Illegal sample interval, must be >= '' @ String_of_uint MIN_INTERVAL
                    @ ''\<newline>'') s
             else
               (let s = s\<lparr>interval := i\<rparr>
                in Serial_print_call
                     (''interval='' @ String_of_uint (interval s) @ ''\<newline>'') s))
          else if command = ''op'' then
            (let s = set_mode OP s;
                 s = s\<lparr>state := STATE_IDLE\<rparr>;
                 s = s\<lparr>armed := FALSE\<rparr>;
                 s = Timer3_stop_call s;
                 s = Timer5_stop_call s
             in Serial_print_call ''OP\<newline>'' s)
          else if command = ''optime'' then
            (let s = s\<lparr>op_time := atoi_value\<rparr>
             in Serial_print_call (''optime='' @ String_of_uint (op_time s) @ ''\<newline>'') s)
          else if command = ''rep'' then
            (let s = s\<lparr>state := STATE_SR_START\<rparr>;
                 s = s\<lparr>repop := TRUE\<rparr>;
                 s = Serial_print_call ''Repetitive operation...\<newline>'' s
             in state_machine s)
          else if command = ''run'' then
            (let s = s\<lparr>state := STATE_SR_START\<rparr>;
                 s = s\<lparr>repop := FALSE\<rparr>;
                 s = Serial_print_call ''Single run...\<newline>'' s
             in state_machine s)
          else if command = ''status'' then
            Serial_print_call
              (''version='' @ VERSION @
               '',optime='' @ String_of_uint (op_time s) @
               '',ictime='' @ String_of_uint (ic_time s) @
               '',channels='' @ String_of_uint (channels s) @
               '',armed='' @ String_of_uint (armed s) @
               '',interval='' @ String_of_uint (interval s) @
               ''\<newline>'') s
          else
            Serial_print_call (''Illegal command >>> '' @ command @ ''\<newline>'') s)"

text \<open>A sequence of command lines, one pass of \<^verbatim>\<open>loop\<close> for each.\<close>

definition run_lines :: "(string \<times> cint) list \<Rightarrow> controller \<Rightarrow> controller" where
  "run_lines ls s = fold (\<lambda>l. loop (Some l)) ls s"

text \<open>
  The controller after reset: the globals with their initialisers, and the hardware as
  \<^verbatim>\<open>setup\<close> leaves it (hybrid mode disabled, both timers stopped).
\<close>

definition power_on :: controller where
  "power_on =
     \<lparr>op_time = DEFAULT_OP_TIME, ic_time = DEFAULT_IC_TIME, state = STATE_IDLE,
      repop = FALSE, channels = DEFAULT_CHANNELS, interval = MIN_INTERVAL, armed = FALSE,
      pins = (\<lambda>_. LOW)(ENABLE := HIGH), Timer3 = Stopped, Timer5 = Stopped, trace = []\<rparr>"

text \<open>The hardware calls a function makes when started in \<open>s\<close>.\<close>

definition calls_of :: "(controller \<Rightarrow> controller) \<Rightarrow> controller \<Rightarrow> effect list" where
  "calls_of f s = drop (length (trace s)) (trace (f s))"

text \<open>
  The OP phase of an armed single run: \<^verbatim>\<open>arm\<close> and \<^verbatim>\<open>run\<close> from reset, and then the
  phase timer has fired once, at the end of the IC phase.
\<close>

definition armed_run_in_OP :: controller where
  "armed_run_in_OP = state_machine (run_lines [(''arm'', 0), (''run'', 0)] power_on)"

text \<open>
  The OP phase of a repetitive run: \<^verbatim>\<open>rep\<close> from reset, and then the phase timer has
  fired once.
\<close>

definition rep_run_in_OP :: controller where
  "rep_run_in_OP = state_machine (run_lines [(''rep'', 0)] power_on)"

section \<open>Basic facts about the embedding\<close>

lemmas macro_defs =
  TRUE_def FALSE_def ENABLE_def MIC_def MOP_def IC_def OP_def HALT_def
  DEFAULT_OP_TIME_def DEFAULT_IC_TIME_def DEFAULT_CHANNELS_def MAX_CHANNELS_def
  MIN_INTERVAL_def STATE_IDLE_def STATE_SR_START_def STATE_SR_IC_def STATE_SR_OP_def

lemmas hardware_calls =
  digitalWrite_def Timer3_stop_call_def Timer3_initialize_call_def
  Timer5_stop_call_def Timer5_initialize_call_def Serial_print_call_def

subsection \<open>Arithmetic of the timer periods\<close>

lemma unat_uint_bound: "unat (t :: uint) < 65536"
  using unsigned_less [of t, where 'a=nat] by simp

lemma unat_ucast_ulong: "unat (ucast (t :: uint) :: ulong) = unat t"
proof -
  have "unat t < 2 ^ 32"
    using unat_uint_bound [of t] by simp
  then show ?thesis
    by (simp add: unsigned_ucast_eq take_bit_nat_eq_self)
qed

lemma micros_exact: "unat (micros t) = 1000 * unat t"
proof -
  have "unat (1000 :: ulong) * unat (ucast t :: ulong) < 2 ^ LENGTH(32)"
    using unat_uint_bound [of t] by (simp add: unat_ucast_ulong)
  then have "unat (1000 * ucast t :: ulong) = unat (1000 :: ulong) * unat (ucast t :: ulong)"
    by (simp only: unat_mult_lem)
  then show ?thesis
    by (simp add: micros_def unat_ucast_ulong)
qed

subsection \<open>The mode driver, mode by mode\<close>

lemma set_mode_IC:
  "set_mode IC s =
     s\<lparr>pins := (pins s)(MIC := LOW, MOP := HIGH),
       trace := trace s @ [DigitalWrite MIC LOW, DigitalWrite MOP HIGH]\<rparr>"
  by (simp add: set_mode_def hardware_calls)

lemma set_mode_OP:
  "set_mode OP s =
     s\<lparr>pins := (pins s)(MIC := HIGH, MOP := LOW),
       trace := trace s @ [DigitalWrite MIC HIGH, DigitalWrite MOP LOW]\<rparr>"
  by (simp add: set_mode_def hardware_calls IC_def OP_def)

lemma set_mode_HALT:
  "set_mode HALT s =
     s\<lparr>pins := (pins s)(MIC := HIGH, MOP := HIGH),
       trace := trace s @ [DigitalWrite MIC HIGH, DigitalWrite MOP HIGH]\<rparr>"
  by (simp add: set_mode_def hardware_calls IC_def OP_def HALT_def)

subsection \<open>The run sequencer, state by state\<close>

lemma do_while_redo_START:
  "state s = STATE_SR_START \<Longrightarrow>
   do_while_redo s =
     s\<lparr>state := STATE_SR_IC,
       pins := (pins s)(MIC := LOW, MOP := HIGH),
       Timer3 := Running (micros (ic_time s)),
       trace := trace s @ [DigitalWrite MIC LOW, DigitalWrite MOP HIGH,
                           Timer3_initialize (micros (ic_time s))]\<rparr>"
  by (subst do_while_redo.simps) (simp add: Let_def set_mode_IC hardware_calls)

lemma do_while_redo_IC:
  "state s = STATE_SR_IC \<Longrightarrow>
   do_while_redo s =
     s\<lparr>state := STATE_SR_OP,
       pins := (pins s)(MIC := HIGH, MOP := LOW),
       Timer3 := Running (micros (op_time s)),
       Timer5 := (if repop s = FALSE \<and> armed s \<noteq> FALSE
                  then Running (micros (interval s)) else Timer5 s),
       trace := trace s @ [Timer3_stop, DigitalWrite MIC HIGH, DigitalWrite MOP LOW]
                  @ (if repop s = FALSE \<and> armed s \<noteq> FALSE
                     then [Timer5_initialize (micros (interval s))] else [])
                  @ [Timer3_initialize (micros (op_time s))]\<rparr>"
  by (subst do_while_redo.simps)
     (simp add: Let_def set_mode_OP hardware_calls STATE_SR_START_def STATE_SR_IC_def FALSE_def)

lemma do_while_redo_OP_single:
  "state s = STATE_SR_OP \<Longrightarrow> repop s = FALSE \<Longrightarrow>
   do_while_redo s =
     s\<lparr>armed := FALSE, state := STATE_IDLE,
       pins := (pins s)(MIC := HIGH, MOP := HIGH),
       Timer3 := Stopped, Timer5 := Stopped,
       trace := trace s @ [Timer3_stop, Timer5_stop, DigitalWrite MIC HIGH,
                           DigitalWrite MOP HIGH,
                           Serial_print ''Single run ended.\<newline>'']\<rparr>"
  by (subst do_while_redo.simps)
     (simp add: Let_def set_mode_HALT hardware_calls STATE_SR_START_def STATE_SR_IC_def
        STATE_SR_OP_def FALSE_def)

lemma do_while_redo_OP_rep:
  "state s = STATE_SR_OP \<Longrightarrow> repop s \<noteq> FALSE \<Longrightarrow>
   do_while_redo s =
     s\<lparr>state := STATE_SR_IC,
       pins := (pins s)(MIC := LOW, MOP := HIGH),
       Timer3 := Running (micros (ic_time s)),
       trace := trace s @ [DigitalWrite MIC LOW, DigitalWrite MOP HIGH,
                           Timer3_initialize (micros (ic_time s))]\<rparr>"
  by (subst do_while_redo.simps)
     (simp add: Let_def do_while_redo_START STATE_SR_START_def STATE_SR_IC_def
        STATE_SR_OP_def FALSE_def)

lemma do_while_redo_other:
  "state s \<noteq> STATE_SR_START \<Longrightarrow> state s \<noteq> STATE_SR_IC \<Longrightarrow> state s \<noteq> STATE_SR_OP \<Longrightarrow>
   do_while_redo s = s"
  by (subst do_while_redo.simps) simp

lemma state_machine_not_IDLE:
  "state s \<noteq> STATE_IDLE \<Longrightarrow> state_machine s = do_while_redo s"
  by (simp add: state_machine_def)

lemma state_machine_IDLE:
  "state s = STATE_IDLE \<Longrightarrow>
   state_machine s = s\<lparr>repop := FALSE, Timer3 := Stopped, trace := trace s @ [Timer3_stop]\<rparr>"
  by (simp add: Let_def state_machine_def hardware_calls do_while_redo_other
        STATE_IDLE_def STATE_SR_START_def STATE_SR_IC_def STATE_SR_OP_def)

subsection \<open>The commands that touch the sequencer, one by one\<close>

lemma loop_halt:
  "loop (Some (''halt'', v)) s =
     s\<lparr>state := STATE_IDLE, armed := FALSE,
       pins := (pins s)(MIC := HIGH, MOP := HIGH),
       Timer3 := Stopped, Timer5 := Stopped,
       trace := trace s @ [DigitalWrite MIC HIGH, DigitalWrite MOP HIGH, Timer3_stop,
                           Timer5_stop, Serial_print ''HALT\<newline>'']\<rparr>"
  by (simp add: loop_def Let_def set_mode_HALT hardware_calls)

lemma loop_ic:
  "loop (Some (''ic'', v)) s =
     s\<lparr>state := STATE_IDLE, armed := FALSE,
       pins := (pins s)(MIC := LOW, MOP := HIGH),
       Timer3 := Stopped, Timer5 := Stopped,
       trace := trace s @ [DigitalWrite MIC LOW, DigitalWrite MOP HIGH, Timer3_stop,
                           Timer5_stop, Serial_print ''IC\<newline>'']\<rparr>"
  by (simp add: loop_def Let_def set_mode_IC hardware_calls)

lemma loop_op:
  "loop (Some (''op'', v)) s =
     s\<lparr>state := STATE_IDLE, armed := FALSE,
       pins := (pins s)(MIC := HIGH, MOP := LOW),
       Timer3 := Stopped, Timer5 := Stopped,
       trace := trace s @ [DigitalWrite MIC HIGH, DigitalWrite MOP LOW, Timer3_stop,
                           Timer5_stop, Serial_print ''OP\<newline>'']\<rparr>"
  by (simp add: loop_def Let_def set_mode_OP hardware_calls)

lemma loop_disable:
  "loop (Some (''disable'', v)) s =
     s\<lparr>pins := (pins s)(ENABLE := HIGH),
       trace := trace s @ [DigitalWrite ENABLE HIGH,
                           Serial_print ''Hybrid mode disabled.\<newline>'']\<rparr>"
  by (simp add: loop_def Let_def hardware_calls)

lemma loop_run:
  "loop (Some (''run'', v)) s =
     s\<lparr>state := STATE_SR_IC, repop := FALSE,
       pins := (pins s)(MIC := LOW, MOP := HIGH),
       Timer3 := Running (micros (ic_time s)),
       trace := trace s @ [Serial_print ''Single run...\<newline>'', DigitalWrite MIC LOW,
                           DigitalWrite MOP HIGH, Timer3_initialize (micros (ic_time s))]\<rparr>"
  by (simp add: loop_def Let_def hardware_calls state_machine_not_IDLE do_while_redo_START
        STATE_IDLE_def STATE_SR_START_def)

lemma loop_rep:
  "loop (Some (''rep'', v)) s =
     s\<lparr>state := STATE_SR_IC, repop := TRUE,
       pins := (pins s)(MIC := LOW, MOP := HIGH),
       Timer3 := Running (micros (ic_time s)),
       trace := trace s @ [Serial_print ''Repetitive operation...\<newline>'',
                           DigitalWrite MIC LOW, DigitalWrite MOP HIGH,
                           Timer3_initialize (micros (ic_time s))]\<rparr>"
  by (simp add: loop_def Let_def hardware_calls state_machine_not_IDLE do_while_redo_START
        STATE_IDLE_def STATE_SR_START_def)

lemma loop_arm:
  "loop (Some (''arm'', v)) s =
     s\<lparr>armed := TRUE, trace := trace s @ [Serial_print ''Armed...\<newline>'']\<rparr>"
  by (simp add: loop_def Let_def hardware_calls)

subsection \<open>Sequences of lines and a concrete run\<close>

lemma run_lines_Nil: "run_lines [] s = s"
  by (simp add: run_lines_def)

lemma run_lines_Cons: "run_lines (l # ls) s = run_lines ls (loop (Some l) s)"
  by (simp add: run_lines_def)

lemma run_lines_snoc: "run_lines (ls @ [l]) s = loop (Some l) (run_lines ls s)"
  by (simp add: run_lines_def)

lemma armed_run_in_OP_eq:
  "armed_run_in_OP =
     power_on\<lparr>state := STATE_SR_OP, armed := TRUE,
       pins := (pins power_on)(MIC := HIGH, MOP := LOW),
       Timer3 := Running 1000000, Timer5 := Running 1000,
       trace := [Serial_print ''Armed...\<newline>'', Serial_print ''Single run...\<newline>'',
                 DigitalWrite MIC LOW, DigitalWrite MOP HIGH, Timer3_initialize 10000,
                 Timer3_stop, DigitalWrite MIC HIGH, DigitalWrite MOP LOW,
                 Timer5_initialize 1000, Timer3_initialize 1000000]\<rparr>"
  by (simp add: armed_run_in_OP_def run_lines_Cons run_lines_Nil loop_arm loop_run
        state_machine_not_IDLE do_while_redo_IC power_on_def micros_def macro_defs)

lemma calls_of_append: "trace (f s) = trace s @ cs \<Longrightarrow> calls_of f s = cs"
  by (simp add: calls_of_def)

lemma loop_keeps_idle:
  assumes "state s = STATE_IDLE" and "command \<noteq> ''run''" and "command \<noteq> ''rep''"
  shows "state (loop (Some (command, v)) s) = STATE_IDLE"
  using assms
  by (simp add: loop_def Let_def hardware_calls set_mode_IC set_mode_OP set_mode_HALT)

subsection \<open>Case analysis on the sequencer state\<close>

lemma STATE_distinct:
  "STATE_SR_START \<noteq> STATE_IDLE" "STATE_SR_IC \<noteq> STATE_IDLE" "STATE_SR_OP \<noteq> STATE_IDLE"
  "STATE_SR_IC \<noteq> STATE_SR_START" "STATE_SR_OP \<noteq> STATE_SR_START"
  "STATE_SR_OP \<noteq> STATE_SR_IC"
  by (simp_all add: STATE_IDLE_def STATE_SR_START_def STATE_SR_IC_def STATE_SR_OP_def)

lemma state_cases:
  obtains (idle) "state s = STATE_IDLE"
    | (start) "state s \<noteq> STATE_IDLE" "state s = STATE_SR_START"
    | (ic) "state s \<noteq> STATE_IDLE" "state s = STATE_SR_IC"
    | (single) "state s \<noteq> STATE_IDLE" "state s = STATE_SR_OP" "repop s = FALSE"
    | (rep) "state s \<noteq> STATE_IDLE" "state s = STATE_SR_OP" "repop s \<noteq> FALSE"
    | (other) "state s \<noteq> STATE_IDLE" "state s \<noteq> STATE_SR_START"
        "state s \<noteq> STATE_SR_IC" "state s \<noteq> STATE_SR_OP"
  by blast

text \<open>
  \<^verbatim>\<open>state_machine\<close> starts the sample timer in one branch only.
\<close>

lemma Timer5_initialize_only_in_IC:
  assumes "Timer5_initialize us \<in> set (calls_of state_machine s)"
  shows "state s = STATE_SR_IC \<and> repop s = FALSE \<and> armed s \<noteq> FALSE"
proof (cases s rule: state_cases)
  case idle
  with assms show ?thesis
    by (simp add: calls_of_def state_machine_IDLE)
next
  case start
  with assms show ?thesis
    by (simp add: calls_of_def state_machine_not_IDLE do_while_redo_START)
next
  case ic
  with assms show ?thesis
    by (simp add: calls_of_def state_machine_not_IDLE do_while_redo_IC split: if_splits)
next
  case single
  with assms show ?thesis
    by (simp add: calls_of_def state_machine_not_IDLE do_while_redo_OP_single)
next
  case rep
  with assms show ?thesis
    by (simp add: calls_of_def state_machine_not_IDLE do_while_redo_OP_rep)
next
  case other
  with assms show ?thesis
    by (simp add: calls_of_def state_machine_not_IDLE do_while_redo_other)
qed

subsection \<open>More concrete runs\<close>

lemma armed_run_in_IC_eq:
  "run_lines [(''arm'', 0), (''run'', 0)] power_on =
     power_on\<lparr>state := STATE_SR_IC, armed := TRUE,
       pins := (pins power_on)(MIC := LOW, MOP := HIGH),
       Timer3 := Running 10000,
       trace := [Serial_print ''Armed...\<newline>'', Serial_print ''Single run...\<newline>'',
                 DigitalWrite MIC LOW, DigitalWrite MOP HIGH, Timer3_initialize 10000]\<rparr>"
  by (simp add: run_lines_Cons run_lines_Nil loop_arm loop_run power_on_def micros_def
        macro_defs)

lemma rep_run_in_OP_eq:
  "rep_run_in_OP =
     power_on\<lparr>state := STATE_SR_OP, repop := TRUE,
       pins := (pins power_on)(MIC := HIGH, MOP := LOW),
       Timer3 := Running 1000000,
       trace := [Serial_print ''Repetitive operation...\<newline>'',
                 DigitalWrite MIC LOW, DigitalWrite MOP HIGH, Timer3_initialize 10000,
                 Timer3_stop, DigitalWrite MIC HIGH, DigitalWrite MOP LOW,
                 Timer3_initialize 1000000]\<rparr>"
  by (simp add: rep_run_in_OP_def run_lines_Cons run_lines_Nil loop_rep
        state_machine_not_IDLE do_while_redo_IC power_on_def micros_def macro_defs)

lemma rep_in_armed_run_eq:
  "loop (Some (''rep'', 0)) armed_run_in_OP =
     armed_run_in_OP\<lparr>state := STATE_SR_IC, repop := TRUE,
       pins := (pins armed_run_in_OP)(MIC := LOW, MOP := HIGH),
       Timer3 := Running 10000,
       trace := trace armed_run_in_OP @
         [Serial_print ''Repetitive operation...\<newline>'', DigitalWrite MIC LOW,
          DigitalWrite MOP HIGH, Timer3_initialize 10000]\<rparr>"
proof -
  have "micros (ic_time armed_run_in_OP) = 10000"
    unfolding armed_run_in_OP_eq by (simp add: power_on_def micros_def DEFAULT_IC_TIME_def)
  then show ?thesis
    by (simp add: loop_rep)
qed

subsection \<open>The commands that take a value\<close>

lemma loop_channels_illegal:
  "v < 1 \<or> v > MAX_CHANNELS \<Longrightarrow>
   loop (Some (''channels'', v)) s =
     s\<lparr>trace := trace s @ [Serial_print ''Illegal number of channels!\<newline>'']\<rparr>"
  by (simp add: loop_def Let_def hardware_calls)

lemma loop_channels_legal:
  "\<not> (v < 1 \<or> v > MAX_CHANNELS) \<Longrightarrow>
   loop (Some (''channels'', v)) s =
     s\<lparr>channels := v,
       trace := trace s @ [Serial_print (''channels='' @ String_of_uint v @ ''\<newline>'')]\<rparr>"
  by (simp add: loop_def Let_def hardware_calls)

lemma loop_interval_illegal:
  "v < MIN_INTERVAL \<Longrightarrow>
   loop (Some (''interval'', v)) s =
     s\<lparr>trace := trace s @
        [Serial_print (''Illegal sample interval, must be >= '' @ String_of_uint MIN_INTERVAL
                         @ ''\<newline>'')]\<rparr>"
  by (simp add: loop_def Let_def hardware_calls)

lemma loop_interval_legal:
  "\<not> v < MIN_INTERVAL \<Longrightarrow>
   loop (Some (''interval'', v)) s =
     s\<lparr>interval := v,
       trace := trace s @ [Serial_print (''interval='' @ String_of_uint v @ ''\<newline>'')]\<rparr>"
  by (simp add: loop_def Let_def hardware_calls)

lemma interval_floor_unsigned: "(v < MIN_INTERVAL) = (v = 0)"
  by (simp add: MIN_INTERVAL_def word_less_1)

text \<open>
  The unsigned comparisons of the two branches, read on the signed number that
  \<^verbatim>\<open>atoi\<close> returned. The test of \<^verbatim>\<open>channels\<close> rejects exactly the numbers outside 1 to 4,
  the negative ones included. The test of \<^verbatim>\<open>interval\<close> rejects 0 only: a negative
  number is a bit pattern of 32768 or more, which is not below \<open>MIN_INTERVAL\<close>.
\<close>

lemma sint_cint:
  "sint v = (if uint v < 32768 then uint v else uint v - 65536)" for v :: cint
proof -
  have b: "0 \<le> uint v" "uint v < 65536"
    using uint_bounded [of v] by simp_all
  have s: "sint v = (uint v + 32768) mod 65536 - 32768"
    by (simp add: sint_uint signed_take_bit_eq_take_bit_shift take_bit_eq_mod)
  show ?thesis
  proof (cases "uint v < 32768")
    case True
    with b have "(uint v + 32768) mod 65536 = uint v + 32768"
      by (simp add: mod_pos_pos_trivial)
    with True s show ?thesis by simp
  next
    case False
    have e: "uint v + 32768 = (uint v - 32768) + 65536"
      by linarith
    have "(uint v + 32768) mod 65536 = ((uint v - 32768) + 65536) mod 65536"
      by (simp only: e)
    also have "\<dots> = (uint v - 32768) mod 65536"
      by (simp only: mod_add_self2)
    also from False b have "\<dots> = uint v - 32768"
      by (simp add: mod_pos_pos_trivial)
    finally show ?thesis
      using False s by simp
  qed
qed

lemma channels_range_signed:
  "(v < 1 \<or> v > MAX_CHANNELS) = (sint v < 1 \<or> 4 < sint v)" for v :: cint
proof -
  have "(v < 1 \<or> v > MAX_CHANNELS) = (uint v < 1 \<or> 4 < uint v)"
    by (simp add: MAX_CHANNELS_def word_less_alt)
  also have "\<dots> = (sint v < 1 \<or> 4 < sint v)"
    using uint_bounded [of v] by (simp add: sint_cint)
  finally show ?thesis .
qed

lemma interval_floor_signed:
  "(sint v < sint MIN_INTERVAL) = (v < MIN_INTERVAL \<or> 32768 \<le> uint v)" for v :: cint
proof -
  have "(v < MIN_INTERVAL) = (uint v < 1)"
    by (simp add: MIN_INTERVAL_def word_less_alt)
  moreover have "(sint v < sint MIN_INTERVAL) = (uint v < 1 \<or> 32768 \<le> uint v)"
    using uint_bounded [of v] by (simp add: sint_cint MIN_INTERVAL_def)
  ultimately show ?thesis by simp
qed

section \<open>The claims of the specification\<close>

subsection \<open>C1: ic, op and halt end in Idle with both timers stopped\<close>

text \<open>
  C1. Whatever the controller was doing (idle, in a single run or in a repetitive run)
  and whatever lines came before, right after an \<^verbatim>\<open>ic\<close>, \<^verbatim>\<open>op\<close> or \<^verbatim>\<open>halt\<close> line
  has been processed the sequencer is in \<open>STATE_IDLE\<close>, Timer3 (the phase timer) and
  Timer5 (the sample timer) are stopped, and \<open>armed\<close> is \<open>FALSE\<close>. The starting state \<open>s\<close>
  is arbitrary, so states that only a timer interrupt reaches are covered as well.
\<close>

theorem ic_op_halt_leave_idle_and_stopped:
  assumes "command \<in> {''ic'', ''op'', ''halt''}"
    and "s' = run_lines (ls @ [(command, v)]) s"
  shows "state s' = STATE_IDLE \<and> Timer3 s' = Stopped \<and> Timer5 s' = Stopped \<and>
         armed s' = FALSE"
proof -
  have s': "s' = loop (Some (command, v)) (run_lines ls s)"
    using assms(2) by (simp add: run_lines_snoc)
  from assms(1) consider "command = ''ic''" | "command = ''op''" | "command = ''halt''"
    by blast
  then show ?thesis
  proof cases
    case 1
    then show ?thesis by (simp add: s' loop_ic)
  next
    case 2
    then show ?thesis by (simp add: s' loop_op)
  next
    case 3
    then show ?thesis by (simp add: s' loop_halt)
  qed
qed

theorem ic_op_halt_leave_idle_and_stopped_witness:
  "''halt'' \<in> {''ic'', ''op'', ''halt''} \<and>
   state (run_lines ([(''arm'', 0), (''rep'', 0)] @ [(''halt'', 0)]) power_on) = STATE_IDLE \<and>
   Timer3 (run_lines ([(''arm'', 0), (''rep'', 0)] @ [(''halt'', 0)]) power_on) = Stopped \<and>
   Timer5 (run_lines ([(''arm'', 0), (''rep'', 0)] @ [(''halt'', 0)]) power_on) = Stopped \<and>
   armed (run_lines ([(''arm'', 0), (''rep'', 0)] @ [(''halt'', 0)]) power_on) = FALSE"
  using ic_op_halt_leave_idle_and_stopped
    [of "''halt''" _ "[(''arm'', 0), (''rep'', 0)]" 0 power_on, OF _ refl]
  by simp

subsection \<open>C2: what entering Idle does to the phase timer and to repop\<close>

text \<open>
  C2 as it is written: every entry into Idle also clears \<open>repop\<close>. The \<^verbatim>\<open>halt\<close>
  branch of \<^verbatim>\<open>loop\<close> does not write \<open>repop\<close>: after \<^verbatim>\<open>rep\<close> and then \<^verbatim>\<open>halt\<close> the
  sequencer is idle and \<open>repop\<close> is still \<open>TRUE\<close>.
\<close>

theorem halt_keeps_repop_counterexample:
  "state (run_lines [(''rep'', 0), (''halt'', 0)] power_on) = STATE_IDLE \<and>
   repop (run_lines [(''rep'', 0), (''halt'', 0)] power_on) \<noteq> FALSE"
  by (simp add: run_lines_Cons run_lines_Nil loop_rep loop_halt TRUE_def FALSE_def)

text \<open>
  C2, as amended. Every entry into \<open>STATE_IDLE\<close> stops the phase timer before the
  invocation returns. An \<^verbatim>\<open>ic\<close>, \<^verbatim>\<open>op\<close> or \<^verbatim>\<open>halt\<close> line leaves \<open>repop\<close> as it was;
  whenever \<^verbatim>\<open>state_machine\<close> itself returns in \<open>STATE_IDLE\<close> (at the end of a single run,
  or when it is invoked while idle, where it clears the flag), \<open>repop\<close> is \<open>FALSE\<close>.
\<close>

theorem idle_entry_phase_timer_and_repop:
  "(command \<in> {''ic'', ''op'', ''halt''} \<longrightarrow>
      state (loop (Some (command, v)) s) = STATE_IDLE \<and>
      Timer3 (loop (Some (command, v)) s) = Stopped \<and>
      repop (loop (Some (command, v)) s) = repop s) \<and>
   (state (state_machine s) = STATE_IDLE \<longrightarrow>
      Timer3 (state_machine s) = Stopped \<and> repop (state_machine s) = FALSE)"
proof (intro conjI impI)
  assume "command \<in> {''ic'', ''op'', ''halt''}"
  then have c: "command = ''ic'' \<or> command = ''op'' \<or> command = ''halt''"
    by blast
  from c show "state (loop (Some (command, v)) s) = STATE_IDLE"
    by (auto simp: loop_ic loop_op loop_halt)
  from c show "Timer3 (loop (Some (command, v)) s) = Stopped"
    by (auto simp: loop_ic loop_op loop_halt)
  from c show "repop (loop (Some (command, v)) s) = repop s"
    by (auto simp: loop_ic loop_op loop_halt)
next
  assume idle: "state (state_machine s) = STATE_IDLE"
  consider (idle) "state s = STATE_IDLE"
    | (start) "state s \<noteq> STATE_IDLE" "state s = STATE_SR_START"
    | (ic) "state s \<noteq> STATE_IDLE" "state s = STATE_SR_IC"
    | (single) "state s \<noteq> STATE_IDLE" "state s = STATE_SR_OP" "repop s = FALSE"
    | (rep) "state s \<noteq> STATE_IDLE" "state s = STATE_SR_OP" "repop s \<noteq> FALSE"
    | (other) "state s \<noteq> STATE_IDLE" "state s \<noteq> STATE_SR_START"
        "state s \<noteq> STATE_SR_IC" "state s \<noteq> STATE_SR_OP"
    by blast
  then have "Timer3 (state_machine s) = Stopped \<and> repop (state_machine s) = FALSE"
  proof cases
    case idle
    then show ?thesis by (simp add: state_machine_IDLE)
  next
    case start
    with idle show ?thesis
      by (simp add: state_machine_not_IDLE do_while_redo_START STATE_IDLE_def STATE_SR_IC_def)
  next
    case ic
    with idle show ?thesis
      by (simp add: state_machine_not_IDLE do_while_redo_IC STATE_IDLE_def STATE_SR_OP_def)
  next
    case single
    then show ?thesis
      by (simp add: state_machine_not_IDLE do_while_redo_OP_single)
  next
    case rep
    with idle show ?thesis
      by (simp add: state_machine_not_IDLE do_while_redo_OP_rep STATE_IDLE_def STATE_SR_IC_def)
  next
    case other
    with idle show ?thesis
      by (simp add: state_machine_not_IDLE do_while_redo_other)
  qed
  then show "Timer3 (state_machine s) = Stopped" and "repop (state_machine s) = FALSE"
    by simp_all
qed

theorem idle_entry_phase_timer_and_repop_witness:
  "''halt'' \<in> {''ic'', ''op'', ''halt''} \<and>
   state (state_machine armed_run_in_OP) = STATE_IDLE \<and>
   state (loop (Some (''halt'', 0)) armed_run_in_OP) = STATE_IDLE \<and>
   Timer3 (loop (Some (''halt'', 0)) armed_run_in_OP) = Stopped \<and>
   repop (loop (Some (''halt'', 0)) armed_run_in_OP) = repop armed_run_in_OP \<and>
   Timer3 (state_machine armed_run_in_OP) = Stopped \<and>
   repop (state_machine armed_run_in_OP) = FALSE"
proof -
  have h1: "''halt'' \<in> {''ic'', ''op'', ''halt''}"
    by simp
  have h2: "state (state_machine armed_run_in_OP) = STATE_IDLE"
    by (simp add: armed_run_in_OP_eq state_machine_not_IDLE do_while_redo_OP_single
          power_on_def macro_defs)
  show ?thesis
    using h1 h2 idle_entry_phase_timer_and_repop [of "''halt''" 0 armed_run_in_OP]
    by simp
qed

subsection \<open>C3: run and rep\<close>

text \<open>
  C3. For every prior state, \<^verbatim>\<open>run\<close> and \<^verbatim>\<open>rep\<close> are to stop the phase timer and the
  sample timer as part of starting the run. The code does not: neither branch of
  \<^verbatim>\<open>loop\<close> nor the \<open>STATE_SR_START\<close> branch of \<^verbatim>\<open>state_machine\<close> calls \<^verbatim>\<open>stop\<close>. In the
  OP phase of an armed single run the sample timer is running; a \<^verbatim>\<open>rep\<close> line there
  makes four hardware calls, none of them a stop, and the sample timer is still running
  after it and after the next two phase-timer interrupts, that is, through the OP phase
  of the repetitive run and into its second cycle. The sketch's own description says
  that data logging is possible only during a single run.
\<close>

theorem rep_during_armed_run_keeps_sampling:
  "state armed_run_in_OP = STATE_SR_OP \<and>
   Timer5 armed_run_in_OP = Running 1000 \<and>
   calls_of (loop (Some (''rep'', 0))) armed_run_in_OP =
     [Serial_print ''Repetitive operation...\<newline>'', DigitalWrite MIC LOW,
      DigitalWrite MOP HIGH, Timer3_initialize 10000] \<and>
   repop (loop (Some (''rep'', 0)) armed_run_in_OP) = TRUE \<and>
   Timer3 (loop (Some (''rep'', 0)) armed_run_in_OP) = Running 10000 \<and>
   Timer5 (loop (Some (''rep'', 0)) armed_run_in_OP) = Running 1000 \<and>
   state (state_machine (state_machine (loop (Some (''rep'', 0)) armed_run_in_OP)))
     = STATE_SR_IC \<and>
   Timer5 (state_machine (state_machine (loop (Some (''rep'', 0)) armed_run_in_OP)))
     = Running 1000"
proof -
  let ?s = "loop (Some (''rep'', 0)) armed_run_in_OP"
  have a: "state armed_run_in_OP = STATE_SR_OP" "Timer5 armed_run_in_OP = Running 1000"
    by (simp_all add: armed_run_in_OP_eq)
  have c: "calls_of (loop (Some (''rep'', 0))) armed_run_in_OP =
     [Serial_print ''Repetitive operation...\<newline>'', DigitalWrite MIC LOW,
      DigitalWrite MOP HIGH, Timer3_initialize 10000]"
    by (simp add: calls_of_def rep_in_armed_run_eq)
  have s: "state ?s = STATE_SR_IC" "repop ?s = TRUE" "Timer3 ?s = Running 10000"
    "Timer5 ?s = Running 1000"
    unfolding rep_in_armed_run_eq by (simp_all add: armed_run_in_OP_eq)
  have one: "state (state_machine ?s) = STATE_SR_OP" "repop (state_machine ?s) = TRUE"
    "Timer5 (state_machine ?s) = Running 1000"
    using s by (simp_all add: state_machine_not_IDLE STATE_distinct do_while_redo_IC
        TRUE_def FALSE_def)
  have two: "state (state_machine (state_machine ?s)) = STATE_SR_IC"
    "Timer5 (state_machine (state_machine ?s)) = Running 1000"
    using one by (simp_all add: state_machine_not_IDLE STATE_distinct do_while_redo_OP_rep
        TRUE_def FALSE_def)
  show ?thesis
    using a c s two by simp
qed

subsection \<open>C4: which commands stop the timers\<close>

text \<open>
  C4 as it is written: \<^verbatim>\<open>disable\<close> stops both timers. Its branch only writes the
  ENABLE pin and prints: in the OP phase of an armed single run both timers are still
  running after \<^verbatim>\<open>disable\<close>.
\<close>

theorem disable_keeps_timers_counterexample:
  "Timer3 (loop (Some (''disable'', 0)) armed_run_in_OP) = Running 1000000 \<and>
   Timer5 (loop (Some (''disable'', 0)) armed_run_in_OP) = Running 1000"
  by (simp add: loop_disable armed_run_in_OP_eq)

text \<open>
  C4, as amended. \<^verbatim>\<open>ic\<close>, \<^verbatim>\<open>op\<close> and \<^verbatim>\<open>halt\<close> stop both timers from every state,
  the states where a timer is already stopped included: the call is total, and a
  stopped timer stays stopped. \<^verbatim>\<open>disable\<close> drives the ENABLE pin high, prints its
  notice and changes nothing else, so it leaves both timers as they were.
\<close>

theorem ic_op_halt_stop_timers_disable_does_not:
  "(command \<in> {''ic'', ''op'', ''halt''} \<longrightarrow>
      Timer3 (loop (Some (command, v)) s) = Stopped \<and>
      Timer5 (loop (Some (command, v)) s) = Stopped) \<and>
   loop (Some (''disable'', v)) s =
     s\<lparr>pins := (pins s)(ENABLE := HIGH),
       trace := trace s @ [DigitalWrite ENABLE HIGH,
                           Serial_print ''Hybrid mode disabled.\<newline>'']\<rparr>"
  by (auto simp: loop_ic loop_op loop_halt loop_disable)

theorem ic_op_halt_stop_timers_witness:
  "''op'' \<in> {''ic'', ''op'', ''halt''} \<and>
   Timer3 (loop (Some (''op'', 0)) (loop (Some (''op'', 0)) armed_run_in_OP)) = Stopped \<and>
   Timer5 (loop (Some (''op'', 0)) (loop (Some (''op'', 0)) armed_run_in_OP)) = Stopped"
  using ic_op_halt_stop_timers_disable_does_not
    [of "''op''" 0 "loop (Some (''op'', 0)) armed_run_in_OP"]
  by simp

subsection \<open>C5: the step out of the IC phase\<close>

text \<open>
  C5. Invoked in \<open>STATE_SR_IC\<close>, \<^verbatim>\<open>state_machine\<close> makes exactly these hardware calls, in
  this order: stop the phase timer, drive MIC high and MOP low (mode OP), start the sample
  timer with the period of \<open>interval\<close> if and only if \<open>repop\<close> is false and \<open>armed\<close> is true at
  that moment, and start the phase timer with the period of \<open>op_time\<close>; the state becomes
  \<open>STATE_SR_OP\<close> and nothing else changes. In particular, from no state does an invocation
  of \<^verbatim>\<open>state_machine\<close> start the sample timer when \<open>repop\<close> is set or \<open>armed\<close> is clear. The
  periods are handed over in microseconds, \<open>micros_exact\<close>.
\<close>

theorem PhaseIC_step:
  "(state s = STATE_SR_IC \<longrightarrow>
      state_machine s =
        s\<lparr>state := STATE_SR_OP,
          pins := (pins s)(MIC := HIGH, MOP := LOW),
          Timer3 := Running (micros (op_time s)),
          Timer5 := (if repop s = FALSE \<and> armed s \<noteq> FALSE
                     then Running (micros (interval s)) else Timer5 s),
          trace := trace s @ [Timer3_stop, DigitalWrite MIC HIGH, DigitalWrite MOP LOW]
                     @ (if repop s = FALSE \<and> armed s \<noteq> FALSE
                        then [Timer5_initialize (micros (interval s))] else [])
                     @ [Timer3_initialize (micros (op_time s))]\<rparr>) \<and>
   (Timer5_initialize us \<in> set (calls_of state_machine s) \<longrightarrow>
      state s = STATE_SR_IC \<and> repop s = FALSE \<and> armed s \<noteq> FALSE)"
proof (intro conjI impI)
  assume ic: "state s = STATE_SR_IC"
  then have "state_machine s = do_while_redo s"
    by (simp add: state_machine_not_IDLE STATE_distinct)
  with ic show "state_machine s =
        s\<lparr>state := STATE_SR_OP,
          pins := (pins s)(MIC := HIGH, MOP := LOW),
          Timer3 := Running (micros (op_time s)),
          Timer5 := (if repop s = FALSE \<and> armed s \<noteq> FALSE
                     then Running (micros (interval s)) else Timer5 s),
          trace := trace s @ [Timer3_stop, DigitalWrite MIC HIGH, DigitalWrite MOP LOW]
                     @ (if repop s = FALSE \<and> armed s \<noteq> FALSE
                        then [Timer5_initialize (micros (interval s))] else [])
                     @ [Timer3_initialize (micros (op_time s))]\<rparr>"
    by (simp only: do_while_redo_IC)
next
  assume "Timer5_initialize us \<in> set (calls_of state_machine s)"
  then have "state s = STATE_SR_IC \<and> repop s = FALSE \<and> armed s \<noteq> FALSE"
    by (rule Timer5_initialize_only_in_IC)
  then show "state s = STATE_SR_IC" and "repop s = FALSE" and "armed s \<noteq> FALSE"
    by simp_all
qed

theorem PhaseIC_step_witness:
  "state (run_lines [(''arm'', 0), (''run'', 0)] power_on) = STATE_SR_IC \<and>
   Timer5_initialize 1000 \<in>
     set (calls_of state_machine (run_lines [(''arm'', 0), (''run'', 0)] power_on)) \<and>
   repop (run_lines [(''arm'', 0), (''run'', 0)] power_on) = FALSE \<and>
   armed (run_lines [(''arm'', 0), (''run'', 0)] power_on) \<noteq> FALSE \<and>
   Timer5 (state_machine (run_lines [(''arm'', 0), (''run'', 0)] power_on)) = Running 1000 \<and>
   Timer3 (state_machine (run_lines [(''arm'', 0), (''run'', 0)] power_on)) = Running 1000000"
proof -
  let ?s = "run_lines [(''arm'', 0), (''run'', 0)] power_on"
  have h1: "state ?s = STATE_SR_IC"
    by (simp add: armed_run_in_IC_eq)
  have m: "micros (interval ?s) = 1000" "micros (op_time ?s) = 1000000"
    unfolding armed_run_in_IC_eq by (simp_all add: power_on_def micros_def macro_defs)
  have f: "repop ?s = FALSE" "armed ?s \<noteq> FALSE"
    unfolding armed_run_in_IC_eq by (simp_all add: power_on_def macro_defs)
  have eq: "state_machine ?s =
        ?s\<lparr>state := STATE_SR_OP,
          pins := (pins ?s)(MIC := HIGH, MOP := LOW),
          Timer3 := Running 1000000,
          Timer5 := Running 1000,
          trace := trace ?s @ [Timer3_stop, DigitalWrite MIC HIGH, DigitalWrite MOP LOW,
                     Timer5_initialize 1000, Timer3_initialize 1000000]\<rparr>"
    using PhaseIC_step [of ?s 1000] h1 f m by simp
  have h2: "Timer5_initialize 1000 \<in> set (calls_of state_machine ?s)"
    by (simp add: calls_of_def eq)
  show ?thesis
    using h1 h2 eq PhaseIC_step [of ?s 1000] by simp
qed

subsection \<open>C6: the end of a single run\<close>

text \<open>
  C6. Invoked in \<open>STATE_SR_OP\<close> with \<open>repop\<close> false, \<^verbatim>\<open>state_machine\<close> stops the phase
  timer and the sample timer, clears \<open>armed\<close>, drives both control lines high (mode HALT),
  sets the state to \<open>STATE_IDLE\<close> and prints the end-of-run notice.
\<close>

theorem PhaseOP_single_run_ends:
  assumes "state s = STATE_SR_OP" and "repop s = FALSE"
  shows "state_machine s =
     s\<lparr>armed := FALSE, state := STATE_IDLE,
       pins := (pins s)(MIC := HIGH, MOP := HIGH),
       Timer3 := Stopped, Timer5 := Stopped,
       trace := trace s @ [Timer3_stop, Timer5_stop, DigitalWrite MIC HIGH,
                           DigitalWrite MOP HIGH,
                           Serial_print ''Single run ended.\<newline>'']\<rparr>"
  using assms by (simp add: state_machine_not_IDLE STATE_distinct do_while_redo_OP_single)

theorem PhaseOP_single_run_ends_witness:
  "state armed_run_in_OP = STATE_SR_OP \<and> repop armed_run_in_OP = FALSE \<and>
   state_machine armed_run_in_OP =
     armed_run_in_OP\<lparr>armed := FALSE, state := STATE_IDLE,
       pins := (pins armed_run_in_OP)(MIC := HIGH, MOP := HIGH),
       Timer3 := Stopped, Timer5 := Stopped,
       trace := trace armed_run_in_OP @ [Timer3_stop, Timer5_stop, DigitalWrite MIC HIGH,
                           DigitalWrite MOP HIGH,
                           Serial_print ''Single run ended.\<newline>'']\<rparr>"
proof -
  have h: "state armed_run_in_OP = STATE_SR_OP" "repop armed_run_in_OP = FALSE"
    by (simp_all add: armed_run_in_OP_eq power_on_def)
  show ?thesis
    using h PhaseOP_single_run_ends [OF h] by simp
qed

subsection \<open>C7: the next cycle of a repetitive run\<close>

text \<open>
  C7. Invoked in \<open>STATE_SR_OP\<close> with \<open>repop\<close> true, \<^verbatim>\<open>state_machine\<close> goes back to
  \<open>STATE_SR_START\<close> and takes the step from there to \<open>STATE_SR_IC\<close> in the same invocation:
  when it returns, the state is \<open>STATE_SR_IC\<close>, the control lines are in mode IC and the
  phase timer runs with the period of \<open>ic_time\<close>. The loop runs its body twice and ends.
\<close>

theorem PhaseOP_repeat_restarts_at_once:
  assumes "state s = STATE_SR_OP" and "repop s \<noteq> FALSE"
  shows "state_machine s =
     s\<lparr>state := STATE_SR_IC,
       pins := (pins s)(MIC := LOW, MOP := HIGH),
       Timer3 := Running (micros (ic_time s)),
       trace := trace s @ [DigitalWrite MIC LOW, DigitalWrite MOP HIGH,
                           Timer3_initialize (micros (ic_time s))]\<rparr>"
  using assms by (simp add: state_machine_not_IDLE STATE_distinct do_while_redo_OP_rep)

theorem PhaseOP_repeat_restarts_at_once_witness:
  "state rep_run_in_OP = STATE_SR_OP \<and> repop rep_run_in_OP \<noteq> FALSE \<and>
   state (state_machine rep_run_in_OP) = STATE_SR_IC \<and>
   pins (state_machine rep_run_in_OP) MIC = LOW \<and>
   pins (state_machine rep_run_in_OP) MOP = HIGH \<and>
   Timer3 (state_machine rep_run_in_OP) = Running 10000 \<and>
   calls_of state_machine rep_run_in_OP =
     [DigitalWrite MIC LOW, DigitalWrite MOP HIGH, Timer3_initialize 10000]"
proof -
  have h: "state rep_run_in_OP = STATE_SR_OP" "repop rep_run_in_OP \<noteq> FALSE"
    by (simp_all add: rep_run_in_OP_eq power_on_def TRUE_def FALSE_def)
  have m: "micros (ic_time rep_run_in_OP) = 10000"
    by (simp add: rep_run_in_OP_eq power_on_def micros_def macro_defs)
  show ?thesis
    using h m PhaseOP_repeat_restarts_at_once [OF h]
    by (simp add: calls_of_def MIC_def MOP_def)
qed

subsection \<open>C8: the sample interval below its floor\<close>

text \<open>
  C8. The claim holds for \<^verbatim>\<open>channels\<close> (\<open>loop_channels_illegal\<close>, \<open>loop_channels_legal\<close>,
  \<open>channels_range_signed\<close>) and for \<^verbatim>\<open>interval=0\<close> (\<open>loop_interval_illegal\<close>). It fails for
  a negative interval: \<^verbatim>\<open>interval=-1\<close> is below the floor of 1 that the error message
  of the branch names, and the branch stores it as 65535 and echoes that value.
\<close>

theorem interval_minus_one_is_accepted:
  "sint (- 1 :: cint) < sint MIN_INTERVAL \<and>
   loop (Some (''interval'', - 1)) power_on =
     power_on\<lparr>interval := 65535, trace := [Serial_print ''interval=65535\<newline>'']\<rparr>"
proof -
  have "\<not> (- 1 :: cint) < MIN_INTERVAL"
    by (simp add: interval_floor_unsigned)
  then have "loop (Some (''interval'', - 1)) power_on =
     power_on\<lparr>interval := - 1,
       trace := trace power_on @
         [Serial_print (''interval='' @ String_of_uint (- 1) @ ''\<newline>'')]\<rparr>"
    by (rule loop_interval_legal)
  moreover have "String_of_uint (- 1) = ''65535''"
  proof -
    have "(- 1 :: cint) = 65535"
      by simp
    then have "unat (- 1 :: cint) = unat (65535 :: cint)"
      by (rule arg_cong)
    then have "unat (- 1 :: cint) = 65535"
      by simp
    moreover have "String_of_nat 65535 = ''65535''"
      by (simp add: String_of_nat.simps)
    ultimately show ?thesis
      by (simp only: String_of_uint_def)
  qed
  moreover have "trace power_on = []"
    by (simp add: power_on_def)
  ultimately have "loop (Some (''interval'', - 1)) power_on =
     power_on\<lparr>interval := - 1, trace := [Serial_print ''interval=65535\<newline>'']\<rparr>"
    by simp
  then show ?thesis
    by (simp add: MIN_INTERVAL_def)
qed

subsection \<open>C9: the control lines in each mode\<close>

text \<open>
  C9. \<^verbatim>\<open>set_mode\<close> writes both control lines and nothing else, and it cannot fail. The
  lines are active low, as the ENABLE line is in the header of the sketch: mode IC is MIC
  low (asserted) and MOP high (deasserted), mode OP is MIC high and MOP low, and mode HALT
  holds both lines high.
\<close>

theorem set_mode_drives_control_lines:
  "set_mode IC s =
     s\<lparr>pins := (pins s)(MIC := LOW, MOP := HIGH),
       trace := trace s @ [DigitalWrite MIC LOW, DigitalWrite MOP HIGH]\<rparr> \<and>
   set_mode OP s =
     s\<lparr>pins := (pins s)(MIC := HIGH, MOP := LOW),
       trace := trace s @ [DigitalWrite MIC HIGH, DigitalWrite MOP LOW]\<rparr> \<and>
   set_mode HALT s =
     s\<lparr>pins := (pins s)(MIC := HIGH, MOP := HIGH),
       trace := trace s @ [DigitalWrite MIC HIGH, DigitalWrite MOP HIGH]\<rparr>"
  by (simp only: set_mode_IC set_mode_OP set_mode_HALT simp_thms)

subsection \<open>C10: a mode that is none of the three\<close>

text \<open>
  C10. For an argument other than \<open>IC\<close>, \<open>OP\<close> and \<open>HALT\<close>, \<^verbatim>\<open>set_mode\<close> makes no
  hardware call and returns the state as it was, the control lines included.
\<close>

theorem set_mode_undefined_mode_is_noop:
  assumes "mode \<notin> {IC, OP, HALT}"
  shows "set_mode mode s = s \<and> calls_of (set_mode mode) s = []"
  using assms by (simp add: set_mode_def calls_of_def)

theorem set_mode_undefined_mode_is_noop_witness:
  "(3 :: cint) \<notin> {IC, OP, HALT} \<and> set_mode 3 power_on = power_on \<and>
   calls_of (set_mode 3) power_on = []"
proof -
  have h: "(3 :: cint) \<notin> {IC, OP, HALT}"
    by (simp add: IC_def OP_def HALT_def)
  show ?thesis
    using h set_mode_undefined_mode_is_noop [OF h, of power_on] by simp
qed

end
